theory Spec2Isabelle
  imports Complex_Main
begin

section \<open>JavaScript values\<close>

text \<open>
  The manager keeps whatever \<open>response.json()\<close> produced, so the cache is a dynamically
  typed value. An object is the association list of its own properties (the first binding
  of a key is the one that counts), and strings are byte strings. \<open>JUndefined\<close> is the
  result of reading a property that does not exist. \<open>JBuiltin\<close> is a function or a
  prototype object of the standard library, named by its path: what a property read
  finds when the name is not an own property but one that the prototype chain defines.
\<close>

datatype jsval =
    JUndefined
  | JNull
  | JBool bool
  | JNum real
  | JStr string
  | JArr "jsval list"
  | JObj "(string \<times> jsval) list"
  | JBuiltin string

text \<open>
  What the code can throw: \<open>new Error(message)\<close>, the engine's \<open>TypeError\<close> on a
  property read of \<open>undefined\<close> or \<open>null\<close>, and the \<open>SyntaxError\<close> with which
  \<open>response.json()\<close> rejects when the body is not JSON.
\<close>

datatype error = Error string | TypeError | SyntaxError

text \<open>The truth value that \<open>!feature\<close> and \<open>if (x)\<close> test.\<close>

fun truthy :: "jsval \<Rightarrow> bool" where
  "truthy JUndefined = False"
| "truthy JNull = False"
| "truthy (JBool b) = b"
| "truthy (JNum r) = (r \<noteq> 0)"
| "truthy (JStr s) = (s \<noteq> [])"
| "truthy (JArr xs) = True"
| "truthy (JObj kvs) = True"
| "truthy (JBuiltin b) = True"

text \<open>Truthiness of an optional string field (\<open>undefined\<close> and \<open>""\<close> are falsy).\<close>

definition truthy_str :: "string option \<Rightarrow> bool" where
  "truthy_str k = (case k of None \<Rightarrow> False | Some s \<Rightarrow> s \<noteq> [])"

text \<open>Decimal rendering of a number inside a template literal.\<close>

fun string_of_nat :: "nat \<Rightarrow> string" where
  "string_of_nat n =
     (if n < 10 then [''0123456789'' ! n]
      else string_of_nat (n div 10) @ [''0123456789'' ! (n mod 10)])"

declare string_of_nat.simps [simp del]

text \<open>
  The names that the prototypes of the standard library define (ECMAScript 2023 with its
  Annex B). Every value except \<open>undefined\<close> and \<open>null\<close> inherits those of
  \<open>Object.prototype\<close>; arrays, strings, numbers and booleans inherit those of their
  own prototype first.
\<close>

definition object_prototype_names :: "string list" where
  "object_prototype_names =
     [''constructor'', ''__defineGetter__'', ''__defineSetter__'', ''hasOwnProperty'',
      ''__lookupGetter__'', ''__lookupSetter__'', ''isPrototypeOf'',
      ''propertyIsEnumerable'', ''toString'', ''valueOf'', ''__proto__'',
      ''toLocaleString'']"

definition array_prototype_names :: "string list" where
  "array_prototype_names =
     [''at'', ''concat'', ''constructor'', ''copyWithin'', ''entries'', ''every'', ''fill'',
      ''filter'', ''find'', ''findIndex'', ''findLast'', ''findLastIndex'', ''flat'',
      ''flatMap'', ''forEach'', ''includes'', ''indexOf'', ''join'', ''keys'',
      ''lastIndexOf'', ''map'', ''pop'', ''push'', ''reduce'', ''reduceRight'', ''reverse'',
      ''shift'', ''slice'', ''some'', ''sort'', ''splice'', ''toLocaleString'',
      ''toReversed'', ''toSorted'', ''toSpliced'', ''toString'', ''unshift'', ''values'',
      ''with'']"

definition string_prototype_names :: "string list" where
  "string_prototype_names =
     [''at'', ''charAt'', ''charCodeAt'', ''codePointAt'', ''concat'', ''constructor'',
      ''endsWith'', ''includes'', ''indexOf'', ''lastIndexOf'', ''localeCompare'',
      ''match'', ''matchAll'', ''normalize'', ''padEnd'', ''padStart'', ''repeat'',
      ''replace'', ''replaceAll'', ''search'', ''slice'', ''split'', ''startsWith'',
      ''substring'', ''toLocaleLowerCase'', ''toLocaleUpperCase'', ''toLowerCase'',
      ''toString'', ''toUpperCase'', ''trim'', ''trimEnd'', ''trimStart'', ''valueOf'',
      ''substr'', ''anchor'', ''big'', ''blink'', ''bold'', ''fixed'', ''fontcolor'',
      ''fontsize'', ''italics'', ''link'', ''small'', ''strike'', ''sub'', ''sup'',
      ''trimLeft'', ''trimRight'']"

definition number_prototype_names :: "string list" where
  "number_prototype_names =
     [''constructor'', ''toExponential'', ''toFixed'', ''toLocaleString'', ''toPrecision'',
      ''toString'', ''valueOf'']"

definition boolean_prototype_names :: "string list" where
  "boolean_prototype_names = [''constructor'', ''toString'', ''valueOf'']"

text \<open>
  What the prototype chain gives for a name that is not an own property: the member of
  the value's own prototype, else the member of \<open>Object.prototype\<close>, else
  \<open>undefined\<close>.
\<close>

definition inherited :: "string \<Rightarrow> string list \<Rightarrow> string \<Rightarrow> jsval" where
  "inherited proto names k =
     (if k \<in> set names then JBuiltin (proto @ ''.prototype.'' @ k)
      else if k \<in> set object_prototype_names then JBuiltin (''Object.prototype.'' @ k)
      else JUndefined)"

text \<open>
  The property read \<open>v[k]\<close>: a \<open>TypeError\<close> on \<open>undefined\<close> and \<open>null\<close>; else the
  own property (a key of an object, an index or \<open>length\<close> of an array or a string) if
  there is one, and what the prototype chain gives otherwise. Of a built-in only the
  members it has from \<open>Object.prototype\<close> are modelled, not those a function has of its
  own: a built-in never is the cache, which is \<open>{}\<close> or a parsed body, and the one
  property that the manager reads from a cached entry is \<open>meta\<close>, which no built-in
  has.
\<close>

definition index_of_key :: "nat \<Rightarrow> string \<Rightarrow> nat option" where
  "index_of_key n k = find (\<lambda>i. string_of_nat i = k) [0..<n]"

fun get_prop :: "jsval \<Rightarrow> string \<Rightarrow> error + jsval" where
  "get_prop JUndefined k = Inl TypeError"
| "get_prop JNull k = Inl TypeError"
| "get_prop (JObj kvs) k =
     Inr (case map_of kvs k of
            None \<Rightarrow> inherited ''Object'' object_prototype_names k
          | Some v \<Rightarrow> v)"
| "get_prop (JArr xs) k =
     Inr (if k = ''length'' then JNum (real (length xs))
          else case index_of_key (length xs) k of
                 None \<Rightarrow> inherited ''Array'' array_prototype_names k
               | Some i \<Rightarrow> xs ! i)"
| "get_prop (JStr s) k =
     Inr (if k = ''length'' then JNum (real (length s))
          else case index_of_key (length s) k of
                 None \<Rightarrow> inherited ''String'' string_prototype_names k
               | Some i \<Rightarrow> JStr [s ! i])"
| "get_prop (JBool b) k = Inr (inherited ''Boolean'' boolean_prototype_names k)"
| "get_prop (JNum r) k = Inr (inherited ''Number'' number_prototype_names k)"
| "get_prop (JBuiltin b) k =
     Inr (if k \<in> set object_prototype_names then JBuiltin (b @ ''.'' @ k) else JUndefined)"

section \<open>Types of the SDK (types/provider.ts)\<close>

record IManagerOptions =
  apiUrl :: "string option"
  publicKey :: "string option"
  privateKey :: "string option"

text \<open>A \<open>Date\<close> is its time value in milliseconds.\<close>

type_synonym Date = int

record IDeclareFeatureTime =
  start :: Date
  end' :: "Date option"

record IDeclareFeatureOptions =
  times :: "IDeclareFeatureTime list"

section \<open>The platform: fetch, timers, the page's origin\<close>

text \<open>
  The object handed to \<open>JSON.stringify\<close> in \<open>createFeature\<close>:
  \<open>{featureName, privateKey, ...options}\<close>.
\<close>

record create_body =
  body_featureName :: string
  body_privateKey :: string
  body_times :: "IDeclareFeatureTime list"

record request =
  req_url :: string
  req_method :: string
  req_headers :: "(string \<times> string) list"
  req_body :: "create_body option"

text \<open>
  A response as the code reads it: \<open>ok\<close>, \<open>status\<close>, \<open>text()\<close> and \<open>json()\<close>,
  where \<open>None\<close> stands for a body that is not JSON (\<open>json()\<close> rejects).
\<close>

record response =
  resp_ok :: bool
  resp_status :: nat
  resp_text :: string
  resp_json :: "jsval option"

text \<open>
  The environment: \<open>window.location.origin\<close>, the interval timers that are active
  (handle and period in milliseconds), the next fresh timer handle, the requests passed
  to \<open>fetch\<close> so far, and the invocations of \<open>createFeature\<close> so far (what a spy on
  the method records).
\<close>

record env =
  origin :: string
  timers :: "(nat \<times> nat) list"
  next_handle :: nat
  fetches :: "request list"
  createFeature_calls :: "(string \<times> IDeclareFeatureOptions) list"

definition fetch :: "request \<Rightarrow> env \<Rightarrow> env" where
  "fetch rq e = e\<lparr>fetches := fetches e @ [rq]\<rparr>"

definition setInterval :: "nat \<Rightarrow> env \<Rightarrow> nat \<times> env" where
  "setInterval period e =
     (next_handle e,
      e\<lparr>timers := timers e @ [(next_handle e, period)],
        next_handle := Suc (next_handle e)\<rparr>)"

definition clearInterval :: "nat \<Rightarrow> env \<Rightarrow> env" where
  "clearInterval h e = e\<lparr>timers := filter (\<lambda>t. fst t \<noteq> h) (timers e)\<rparr>"

text \<open>
  The serialisation of a query value by \<open>URLSearchParams\<close>
  (application/x-www-form-urlencoded): letters, digits and \<open>*-._\<close> stay, a space
  becomes \<open>+\<close>, every other byte becomes \<open>%XX\<close>.
\<close>

definition hex_digit :: "nat \<Rightarrow> char" where
  "hex_digit n = ''0123456789ABCDEF'' ! n"

definition urlencode_char :: "char \<Rightarrow> string" where
  "urlencode_char c =
     (if c \<in> set ''ABCDEFGHIJKLMNOPQRSTUVWXYZabcdefghijklmnopqrstuvwxyz0123456789*-._''
      then [c]
      else if c = CHR '' '' then ''+''
      else [CHR ''%'', hex_digit (of_char c div 16), hex_digit (of_char c mod 16)])"

definition urlencode :: "string \<Rightarrow> string" where
  "urlencode s = concat (map urlencode_char s)"

section \<open>KybernetixManager (provider.ts)\<close>

text \<open>
  The fields of the class. An asynchronous method is modelled twice. As one step that is
  given the response its \<open>fetch\<close> resolves to, it is the method as a caller sees it who
  awaits it before doing anything else (\<open>getFeatures\<close>, \<open>init\<close>, \<open>createFeature\<close>).
  In two parts, it is what really runs: the part before the first \<open>await\<close>, which
  happens during the call itself and ends with the call of \<open>fetch\<close>, and the part that
  runs when the response arrives, with other calls possibly in between
  (\<open>getFeatures_issue\<close> and \<open>getFeatures_settle\<close>, \<open>init_settle\<close>; the event loop
  below runs them).
\<close>

record manager =
  inited :: bool
  interval :: "nat option"
  options :: IManagerOptions
  declaredFeatures :: jsval

type_synonym world = "manager \<times> env"

text \<open>
  The constructor: \<open>{ apiUrl: 'https://api.platform.kybernetix.ru', ...opts }\<close>.
  \<open>None\<close> in \<open>opts\<close> is a key that was not supplied.
\<close>

definition new_manager :: "IManagerOptions \<Rightarrow> manager" where
  "new_manager opts =
     \<lparr>inited = False,
      interval = None,
      options = opts\<lparr>apiUrl :=
        (case apiUrl opts of
           None \<Rightarrow> Some ''https://api.platform.kybernetix.ru''
         | Some u \<Rightarrow> Some u)\<rparr>,
      declaredFeatures = JObj []\<rparr>"

definition getLocalFeature :: "string \<Rightarrow> manager \<Rightarrow> error + jsval" where
  "getLocalFeature featureName m = get_prop (declaredFeatures m) featureName"

text \<open>
  \<open>createFeature\<close> is asynchronous. \<open>createFeature_issue\<close> is what it does before its
  first \<open>await\<close>, that is, during the call itself: the check of the private key and the
  call of \<open>fetch\<close>. \<open>createFeature_result\<close> is what its promise settles to once the
  response is there. \<open>createFeature\<close> is the whole operation as an awaiting caller
  sees it.
\<close>

definition create_request :: "string \<Rightarrow> string \<Rightarrow> IDeclareFeatureOptions \<Rightarrow> request" where
  "create_request key featureName opts =
     \<lparr>req_url = ''/v1/sdk/feature/'',
      req_method = ''POST'',
      req_headers = [(''Content-Type'', ''application/json'')],
      req_body = Some
        \<lparr>body_featureName = featureName,
         body_privateKey = key,
         body_times = times opts\<rparr>\<rparr>"

definition createFeature_issue ::
  "string \<Rightarrow> IDeclareFeatureOptions \<Rightarrow> world \<Rightarrow> world" where
  "createFeature_issue featureName opts w =
     (let m = fst w;
          e = (snd w)\<lparr>createFeature_calls :=
                 createFeature_calls (snd w) @ [(featureName, opts)]\<rparr>
      in if \<not> truthy_str (privateKey (options m)) then (m, e)
         else (m, fetch (create_request (the (privateKey (options m))) featureName opts) e))"

definition createFeature_result :: "manager \<Rightarrow> response \<Rightarrow> error + jsval" where
  "createFeature_result m r =
     (if \<not> truthy_str (privateKey (options m)) then Inr JNull
      else if \<not> resp_ok r then
        Inl (Error (''Failed to create feature: '' @ string_of_nat (resp_status r)
                    @ '' - '' @ resp_text r))
      else case resp_json r of None \<Rightarrow> Inl SyntaxError | Some v \<Rightarrow> Inr v)"

definition createFeature ::
  "string \<Rightarrow> IDeclareFeatureOptions \<Rightarrow> response \<Rightarrow> world \<Rightarrow> (error + jsval) \<times> world" where
  "createFeature featureName opts r w =
     (createFeature_result (fst w) r, createFeature_issue featureName opts w)"

text \<open>
  \<open>getFeatures\<close>, given the response that \<open>fetch\<close> resolves to. The URL is
  \<open>new URL('/v1/sdk/feature/', window.location.origin)\<close> with the query parameter
  \<open>publicKey\<close> appended: the origin, the path, and the serialised query.
\<close>

definition read_request :: "string \<Rightarrow> string \<Rightarrow> request" where
  "read_request org pk =
     \<lparr>req_url = org @ ''/v1/sdk/feature/'' @ ''?publicKey='' @ urlencode pk,
      req_method = ''GET'',
      req_headers = [(''Content-Type'', ''application/json'')],
      req_body = None\<rparr>"

definition getFeatures :: "response \<Rightarrow> world \<Rightarrow> (error + unit) \<times> world" where
  "getFeatures r w =
     (let m = fst w; e = snd w
      in if \<not> truthy_str (publicKey (options m)) then
           (Inl (Error ''Public key is missing. Please provide a valid publicKey in the SDK configuration.''),
            w)
         else
           let e' = fetch (read_request (origin e) (the (publicKey (options m)))) e
           in if \<not> resp_ok r \<and> \<not> inited m then
                (Inl (Error (''Failed to get features: '' @ string_of_nat (resp_status r)
                             @ '' - '' @ resp_text r)),
                 (m, e'))
              else case resp_json r of
                     None \<Rightarrow> (Inl SyntaxError, (m, e'))
                   | Some v \<Rightarrow> (Inr (), (m\<lparr>declaredFeatures := v\<rparr>, e')))"

definition init :: "response \<Rightarrow> world \<Rightarrow> (error + unit) \<times> world" where
  "init r w =
     (case getFeatures r w of
        (Inl err, w') \<Rightarrow> (Inl err, w')
      | (Inr u, (m, e)) \<Rightarrow>
          (case setInterval 10000 e of
             (h, e') \<Rightarrow> (Inr (), (m\<lparr>interval := Some h, inited := True\<rparr>, e'))))"

text \<open>
  A tick of the interval timer with handle \<open>h\<close>: the callback runs \<open>getFeatures\<close> and
  drops its promise. A timer that is not active does not fire.
\<close>

definition tick :: "nat \<Rightarrow> response \<Rightarrow> world \<Rightarrow> world" where
  "tick h r w =
     (if h \<in> fst ` set (timers (snd w)) then snd (getFeatures r w) else w)"

definition destroy :: "world \<Rightarrow> world" where
  "destroy w =
     (let m = fst w; e = snd w
      in (m\<lparr>inited := False, declaredFeatures := JObj []\<rparr>,
          case interval m of None \<Rightarrow> e | Some h \<Rightarrow> clearInterval h e))"

definition declareFeature ::
  "string \<Rightarrow> IDeclareFeatureOptions \<Rightarrow> world \<Rightarrow> (error + unit) \<times> world" where
  "declareFeature featureName opts w =
     (case getLocalFeature featureName (fst w) of
        Inl err \<Rightarrow> (Inl err, w)
      | Inr feature \<Rightarrow>
          if \<not> truthy feature then (Inr (), createFeature_issue featureName opts w)
          else (Inr (), w))"

definition isEnabled :: "string \<Rightarrow> world \<Rightarrow> (error + jsval) \<times> world" where
  "isEnabled featureName w =
     (case getLocalFeature featureName (fst w) of
        Inl err \<Rightarrow> (Inl err, w)
      | Inr feature \<Rightarrow>
          if \<not> truthy feature then
            (Inr (JBool False), createFeature_issue featureName \<lparr>times = []\<rparr> w)
          else
            (case get_prop feature ''meta'' of
               Inl err \<Rightarrow> (Inl err, w)
             | Inr meta \<Rightarrow>
                 (case get_prop meta ''enabled'' of
                    Inl err \<Rightarrow> (Inl err, w)
                  | Inr v \<Rightarrow> (Inr v, w))))"


section \<open>The asynchronous methods in two parts, and the event loop\<close>

text \<open>
  \<open>getFeatures\<close> up to \<open>await fetch(...)\<close>, and from there on. \<open>this.inited\<close> is read
  in the second part, when the response is there. Reading the body
  (\<open>await response.text()\<close>, \<open>await response.json()\<close>) counts as part of the arrival
  of the response: the second part issues no request and starts no timer wherever it is
  suspended.
\<close>

definition getFeatures_issue :: "world \<Rightarrow> (error + unit) \<times> world" where
  "getFeatures_issue w =
     (let m = fst w; e = snd w
      in if \<not> truthy_str (publicKey (options m)) then
           (Inl (Error ''Public key is missing. Please provide a valid publicKey in the SDK configuration.''),
            w)
         else (Inr (), (m, fetch (read_request (origin e) (the (publicKey (options m)))) e)))"

definition getFeatures_settle :: "response \<Rightarrow> world \<Rightarrow> (error + unit) \<times> world" where
  "getFeatures_settle r w =
     (let m = fst w; e = snd w
      in if \<not> resp_ok r \<and> \<not> inited m then
           (Inl (Error (''Failed to get features: '' @ string_of_nat (resp_status r)
                        @ '' - '' @ resp_text r)),
            w)
         else case resp_json r of
                None \<Rightarrow> (Inl SyntaxError, w)
              | Some v \<Rightarrow> (Inr (), (m\<lparr>declaredFeatures := v\<rparr>, e)))"

text \<open>
  \<open>init\<close> from the moment its \<open>await this.getFeatures()\<close> gets the response: the rest
  of the refresh, then \<open>setInterval\<close> and \<open>this.inited = true\<close>.
\<close>

definition init_settle :: "response \<Rightarrow> world \<Rightarrow> (error + unit) \<times> world" where
  "init_settle r w =
     (case getFeatures_settle r w of
        (Inl err, w') \<Rightarrow> (Inl err, w')
      | (Inr u, (m, e)) \<Rightarrow>
          (case setInterval 10000 e of
             (h, e') \<Rightarrow> (Inr (), (m\<lparr>interval := Some h, inited := True\<rparr>, e'))))"

text \<open>
  The event loop: the world together with the refreshes that are in flight, each marked
  with who awaits it (an \<open>init()\<close>, or nobody, as for the refresh of a timer tick).
  A call of \<open>init()\<close> and a tick of an active timer start a refresh; a response settles
  the refresh in flight at the given position; \<open>destroy()\<close> is synchronous. The outcome
  of a promise that nobody awaits is dropped. A creation in flight is not listed: what
  runs when its response arrives touches neither the manager nor the environment.
\<close>

datatype pending = PendingInit | PendingRefresh

type_synonym loop = "world \<times> pending list"

definition start_refresh :: "pending \<Rightarrow> loop \<Rightarrow> loop" where
  "start_refresh p l =
     (case getFeatures_issue (fst l) of
        (Inl err, w') \<Rightarrow> (w', snd l)
      | (Inr u, w') \<Rightarrow> (w', snd l @ [p]))"

definition call_init :: "loop \<Rightarrow> loop" where
  "call_init l = start_refresh PendingInit l"

definition call_destroy :: "loop \<Rightarrow> loop" where
  "call_destroy l = (destroy (fst l), snd l)"

fun settle :: "pending \<Rightarrow> response \<Rightarrow> world \<Rightarrow> world" where
  "settle PendingInit r w = snd (init_settle r w)"
| "settle PendingRefresh r w = snd (getFeatures_settle r w)"

text \<open>What can happen without a call from the application.\<close>

datatype event = Tick nat | Respond nat response

fun step :: "event \<Rightarrow> loop \<Rightarrow> loop" where
  "step (Tick h) l =
     (if h \<in> fst ` set (timers (snd (fst l))) then start_refresh PendingRefresh l else l)"
| "step (Respond i r) l =
     (if i < length (snd l)
      then (settle (snd l ! i) r (fst l), take i (snd l) @ drop (Suc i) (snd l))
      else l)"

definition run :: "event list \<Rightarrow> loop \<Rightarrow> loop" where
  "run evs l = fold step evs l"

section \<open>Fixtures of the test suite and of the documented scenario\<close>

text \<open>The options, origin and responses that provider.spec.ts uses.\<close>

definition test_opts :: IManagerOptions where
  "test_opts =
     \<lparr>apiUrl = Some ''https://api.platform.kybernetix.ru'',
      publicKey = Some ''test-public-key'',
      privateKey = Some ''test-private-key''\<rparr>"

definition test_env :: env where
  "test_env =
     \<lparr>origin = ''https://test.origin'', timers = [], next_handle = 0,
      fetches = [], createFeature_calls = []\<rparr>"

definition featureA_entry :: jsval where
  "featureA_entry = JObj [(''times'', JArr []), (''enabled'', JBool True)]"

definition featureA_response :: response where
  "featureA_response =
     \<lparr>resp_ok = True, resp_status = 200,
      resp_text = ''{\"featureA\":{\"times\":[],\"enabled\":true}}'',
      resp_json = Some (JObj [(''featureA'', featureA_entry)])\<rparr>"

definition get_error_response :: response where
  "get_error_response =
     \<lparr>resp_ok = False, resp_status = 500, resp_text = ''Get error'',
      resp_json = Some (JStr ''Get error'')\<rparr>"

text \<open>A failure whose body is not JSON, as an HTML error page is.\<close>

definition html_error_response :: response where
  "html_error_response =
     \<lparr>resp_ok = False, resp_status = 502, resp_text = ''<html>Bad Gateway</html>'',
      resp_json = None\<rparr>"

text \<open>The scenario of the specification: a public key \<open>pk\<close>, no private key.\<close>

definition example_opts :: IManagerOptions where
  "example_opts = \<lparr>apiUrl = None, publicKey = Some ''pk'', privateKey = None\<rparr>"

text \<open>A manager in steady state: initialised, holding timer 0, with \<open>featureA\<close> cached.\<close>

definition polling_world :: world where
  "polling_world =
     ((new_manager test_opts)
        \<lparr>inited := True, interval := Some 0,
         declaredFeatures := JObj [(''featureA'', featureA_entry)]\<rparr>,
      test_env\<lparr>timers := [(0, 10000)], next_handle := 1\<rparr>)"

text \<open>A cache entry of the declared shape \<open>{options, meta}\<close>.\<close>

definition declared_entry :: "bool \<Rightarrow> jsval" where
  "declared_entry b =
     JObj [(''options'', JObj [(''times'', JArr [])]), (''meta'', JObj [(''enabled'', JBool b)])]"

text \<open>A manager on which \<open>init()\<close> has completed twice.\<close>

definition twice_inited :: world where
  "twice_inited =
     snd (init featureA_response
            (snd (init featureA_response (new_manager test_opts, test_env))))"

text \<open>A failure with a JSON body, as a service in maintenance sends.\<close>

definition maintenance_response :: response where
  "maintenance_response =
     \<lparr>resp_ok = False, resp_status = 503, resp_text = ''{}'', resp_json = Some (JObj [])\<rparr>"

lemmas ops_defs =
  getFeatures_def init_def destroy_def declareFeature_def isEnabled_def
  createFeature_def createFeature_issue_def createFeature_result_def getLocalFeature_def
  fetch_def setInterval_def clearInterval_def tick_def new_manager_def truthy_str_def
  read_request_def create_request_def inherited_def object_prototype_names_def

lemmas loop_defs =
  run_def start_refresh_def call_init_def call_destroy_def getFeatures_issue_def
  getFeatures_settle_def init_settle_def

lemmas fixture_defs =
  test_opts_def example_opts_def test_env_def featureA_entry_def featureA_response_def
  get_error_response_def html_error_response_def polling_world_def declared_entry_def
  twice_inited_def maintenance_response_def

section \<open>Shared lemmas\<close>

lemma createFeature_issue_manager [simp]:
  "fst (createFeature_issue featureName opts w) = fst w"
  by (simp add: createFeature_issue_def Let_def)

lemma createFeature_issue_calls [simp]:
  "createFeature_calls (snd (createFeature_issue featureName opts w)) =
     createFeature_calls (snd w) @ [(featureName, opts)]"
  by (simp add: createFeature_issue_def Let_def fetch_def)

lemma createFeature_issue_fetches:
  "fetches (snd (createFeature_issue featureName opts w)) =
     fetches (snd w) @
       (if truthy_str (privateKey (options (fst w)))
        then [create_request (the (privateKey (options (fst w)))) featureName opts]
        else [])"
  by (simp add: createFeature_issue_def Let_def fetch_def)

lemma createFeature_issue_timers [simp]:
  "timers (snd (createFeature_issue featureName opts w)) = timers (snd w)"
  by (simp add: createFeature_issue_def Let_def fetch_def)

lemma createFeature_issue_funpow:
  "fst ((createFeature_issue featureName opts ^^ k) w) = fst w \<and>
   createFeature_calls (snd ((createFeature_issue featureName opts ^^ k) w)) =
     createFeature_calls (snd w) @ replicate k (featureName, opts) \<and>
   fetches (snd ((createFeature_issue featureName opts ^^ k) w)) =
     fetches (snd w) @
       (if truthy_str (privateKey (options (fst w)))
        then replicate k (create_request (the (privateKey (options (fst w)))) featureName opts)
        else [])"
proof (induction k)
  case 0
  show ?case by simp
next
  case (Suc k)
  then show ?case
    by (simp add: createFeature_issue_fetches replicate_append_same)
qed

text \<open>
  A step that behaves as \<open>createFeature_issue\<close> on every world with the manager of
  \<open>w\<close> does so however often it is repeated, since the manager never changes.
\<close>

lemma funpow_as_createFeature_issue:
  assumes "\<And>w'. fst w' = fst w \<Longrightarrow> f w' = createFeature_issue featureName opts w'"
  shows "(f ^^ k) w = (createFeature_issue featureName opts ^^ k) w"
proof (induction k)
  case 0
  show ?case by simp
next
  case (Suc k)
  have "fst ((createFeature_issue featureName opts ^^ k) w) = fst w"
    by (simp add: createFeature_issue_funpow)
  with Suc assms show ?case by simp
qed

lemma isEnabled_absent:
  "getLocalFeature featureName (fst w) = Inr JUndefined \<Longrightarrow>
   isEnabled featureName w =
     (Inr (JBool False), createFeature_issue featureName \<lparr>times = []\<rparr> w)"
  by (simp add: isEnabled_def)

lemma declareFeature_absent:
  "getLocalFeature featureName (fst w) = Inr JUndefined \<Longrightarrow>
   declareFeature featureName opts w = (Inr (), createFeature_issue featureName opts w)"
  by (simp add: declareFeature_def)

lemma isEnabled_manager: "fst (snd (isEnabled featureName w)) = fst w"
  by (simp add: isEnabled_def split: sum.splits)

lemma declareFeature_manager: "fst (snd (declareFeature featureName opts w)) = fst w"
  by (simp add: declareFeature_def split: sum.splits)

lemma getFeatures_change:
  "declaredFeatures (fst (snd (getFeatures r w))) \<noteq> declaredFeatures (fst w) \<Longrightarrow>
   fst (getFeatures r w) = Inr () \<and>
   resp_json r = Some (declaredFeatures (fst (snd (getFeatures r w))))"
  by (auto simp add: getFeatures_def Let_def split: if_splits option.splits)

text \<open>\<open>init\<close> resolves or rejects as its refresh does, and writes the cache only there.\<close>

lemma init_result: "fst (init r w) = fst (getFeatures r w)"
  by (simp add: init_def setInterval_def split: prod.splits sum.splits)

lemma init_cache:
  "declaredFeatures (fst (snd (init r w))) = declaredFeatures (fst (snd (getFeatures r w)))"
  by (simp add: init_def setInterval_def split: prod.splits sum.splits)

lemma destroy_idem: "destroy (destroy w) = destroy w"
  by (cases w) (simp add: destroy_def clearInterval_def split: option.splits)

lemma destroy_no_timers:
  "fst ` set (timers (snd w)) \<subseteq> set_option (interval (fst w)) \<Longrightarrow>
   timers (snd (destroy w)) = []"
  by (cases w)
     (auto simp add: destroy_def clearInterval_def filter_empty_conv split: option.splits)

text \<open>
  When the cached entry has the declared shape, with a \<open>meta\<close> object that has an
  \<open>enabled\<close> property, \<open>isEnabled\<close> returns that property and does nothing else.
\<close>

lemma isEnabled_returns_meta_enabled:
  "getLocalFeature featureName m = Inr (JObj fs) \<Longrightarrow>
   map_of fs ''meta'' = Some (JObj ms) \<Longrightarrow>
   map_of ms ''enabled'' = Some v \<Longrightarrow>
   isEnabled featureName (m, e) = (Inr v, (m, e))"
  by (simp add: isEnabled_def)

lemma isEnabled_declared_entry:
  "isEnabled ''flag''
     ((new_manager test_opts)\<lparr>declaredFeatures := JObj [(''flag'', declared_entry b)]\<rparr>, test_env)
   = (Inr (JBool b),
      ((new_manager test_opts)\<lparr>declaredFeatures := JObj [(''flag'', declared_entry b)]\<rparr>, test_env))"
  by (rule isEnabled_returns_meta_enabled [where fs = "[(''options'', JObj [(''times'', JArr [])]), (''meta'', JObj [(''enabled'', JBool b)])]"
        and ms = "[(''enabled'', JBool b)]"])
     (simp_all add: getLocalFeature_def declared_entry_def)

text \<open>
  A refresh that gets a failure response while \<open>inited\<close> is set goes on to
  \<open>response.json()\<close>: a body that parses is assigned to the cache, a body that does not
  parse makes the refresh reject.
\<close>

lemma getFeatures_failure_when_inited:
  "inited m \<Longrightarrow> \<not> resp_ok r \<Longrightarrow> truthy_str (publicKey (options m)) \<Longrightarrow>
   (resp_json r = Some v \<longrightarrow>
      fst (getFeatures r (m, e)) = Inr () \<and>
      declaredFeatures (fst (snd (getFeatures r (m, e)))) = v) \<and>
   (resp_json r = None \<longrightarrow> fst (getFeatures r (m, e)) = Inl SyntaxError)"
  by (simp add: getFeatures_def Let_def)

text \<open>The one-step methods are their two parts with nothing in between.\<close>

lemma getFeatures_split:
  "getFeatures r w =
     (case getFeatures_issue w of
        (Inl err, w') \<Rightarrow> (Inl err, w')
      | (Inr u, w') \<Rightarrow> getFeatures_settle r w')"
  by (simp add: getFeatures_def getFeatures_issue_def getFeatures_settle_def Let_def
      split: option.splits)

lemma init_split:
  "init r w =
     (case getFeatures_issue w of
        (Inl err, w') \<Rightarrow> (Inl err, w')
      | (Inr u, w') \<Rightarrow> init_settle r w')"
  by (simp add: init_def init_settle_def getFeatures_split split: prod.splits sum.splits)

lemma getFeatures_settle_env: "snd (snd (getFeatures_settle r w)) = snd w"
  by (simp add: getFeatures_settle_def Let_def split: option.splits)

text \<open>
  With no timer active and no \<open>init()\<close> awaiting its refresh, an event starts no timer,
  issues no request and leaves no \<open>init()\<close> in flight.
\<close>

lemma quiet_step:
  assumes "timers (snd (fst l)) = []" and "PendingInit \<notin> set (snd l)"
  shows "timers (snd (fst (step ev l))) = [] \<and>
         PendingInit \<notin> set (snd (step ev l)) \<and>
         fetches (snd (fst (step ev l))) = fetches (snd (fst l))"
proof (cases ev)
  case (Tick h)
  with assms show ?thesis by simp
next
  case (Respond i r)
  show ?thesis
  proof (cases "i < length (snd l)")
    case False
    with Respond assms show ?thesis by simp
  next
    case True
    then have "snd l ! i \<in> set (snd l)" by simp
    with assms(2) have "snd l ! i \<noteq> PendingInit" by metis
    then have kind: "snd l ! i = PendingRefresh" by (cases "snd l ! i") simp_all
    have rest: "PendingInit \<notin> set (take i (snd l) @ drop (Suc i) (snd l))"
      using assms(2) by (auto dest: in_set_takeD in_set_dropD)
    from Respond True kind rest assms(1) show ?thesis
      by (simp add: getFeatures_settle_env)
  qed
qed

lemma quiet_run:
  "timers (snd (fst l)) = [] \<Longrightarrow> PendingInit \<notin> set (snd l) \<Longrightarrow>
   timers (snd (fst (run evs l))) = [] \<and>
   fetches (snd (fst (run evs l))) = fetches (snd (fst l))"
proof (induction evs arbitrary: l)
  case Nil
  then show ?case by (simp add: run_def)
next
  case (Cons ev evs)
  from quiet_step [OF Cons.prems, of ev]
  have q: "timers (snd (fst (step ev l))) = []"
    "PendingInit \<notin> set (snd (step ev l))"
    "fetches (snd (fst (step ev l))) = fetches (snd (fst l))"
    by simp_all
  from Cons.IH [OF q(1) q(2)] q(3) show ?case
    by (simp add: run_def)
qed

text \<open>With no timer active and nothing in flight, nothing happens at all.\<close>

lemma idle_run: "timers (snd (fst l)) = [] \<Longrightarrow> snd l = [] \<Longrightarrow> run evs l = l"
proof (induction evs)
  case Nil
  show ?case by (simp add: run_def)
next
  case (Cons ev evs)
  from Cons.prems have "step ev l = l" by (cases ev) simp_all
  with Cons show ?case by (simp add: run_def)
qed

text \<open>
  What \<open>declareFeature\<close> does when the lookup yields an object, and what the two
  checks do when it yields \<open>undefined\<close>, is in \<open>isEnabled_absent\<close> and
  \<open>declareFeature_absent\<close> above and in the next lemma.
\<close>

lemma declareFeature_present:
  "getLocalFeature featureName (fst w) = Inr (JObj fs) \<Longrightarrow>
   declareFeature featureName opts w = (Inr (), w)"
  by (simp add: declareFeature_def)

text \<open>
  \<open>declareFeature\<close>, \<open>isEnabled\<close> and the create operation leave the manager, and
  with it the cache, as it is, whatever the lookup finds and whatever response the
  creation gets.
\<close>

lemma cache_frame:
  "fst (snd (declareFeature featureName opts w)) = fst w \<and>
   fst (snd (isEnabled featureName w)) = fst w \<and>
   fst (snd (createFeature featureName opts r w)) = fst w"
  by (simp add: declareFeature_manager isEnabled_manager createFeature_def)

text \<open>
  While the lookup of a name yields \<open>undefined\<close>, \<open>k\<close> calls of \<open>isEnabled\<close> invoke
  the create operation \<open>k\<close> times.
\<close>

lemma isEnabled_repeated:
  assumes absent: "getLocalFeature featureName (fst w) = Inr JUndefined"
  shows "createFeature_calls (snd (((\<lambda>w. snd (isEnabled featureName w)) ^^ k) w)) =
           createFeature_calls (snd w) @ replicate k (featureName, \<lparr>times = []\<rparr>)"
proof -
  have "((\<lambda>w. snd (isEnabled featureName w)) ^^ k) w =
      (createFeature_issue featureName \<lparr>times = []\<rparr> ^^ k) w"
    by (rule funpow_as_createFeature_issue) (simp add: absent isEnabled_absent)
  then show ?thesis
    by (simp add: createFeature_issue_funpow)
qed

section \<open>The properties\<close>

text \<open>
  C1. For a feature name in the cache, \<open>isEnabled\<close> is to return the entry's
  \<open>meta.enabled\<close>; in particular, after \<open>init()\<close> succeeds with the service returning
  \<open>{featureA: {times: [], enabled: true}}\<close>, \<open>isEnabled("featureA")\<close> is to return
  \<open>true\<close> without throwing. On the code, \<open>init()\<close> succeeds and stores that body as it
  is; the entry has no \<open>meta\<close> property, and \<open>isEnabled("featureA")\<close> throws a
  \<open>TypeError\<close> when it reads \<open>feature.meta.enabled\<close>.
\<close>

theorem isEnabled_featureA_after_init_throws:
  "fst (init featureA_response (new_manager example_opts, test_env)) = Inr () \<and>
   declaredFeatures (fst (snd (init featureA_response (new_manager example_opts, test_env))))
     = JObj [(''featureA'', JObj [(''times'', JArr []), (''enabled'', JBool True)])] \<and>
   fst (isEnabled ''featureA''
          (snd (init featureA_response (new_manager example_opts, test_env))))
     = Inl TypeError"
  by (simp add: ops_defs fixture_defs)

text \<open>
  C2. With \<open>inited\<close> set, a refresh that receives a failure response is to resolve and to
  leave the cache as it was. On the code, the refresh of the test suite's failure response
  (status 500, body \<open>"Get error"\<close>) replaces the cache, which held \<open>featureA\<close>, by the
  string \<open>"Get error"\<close>; and a failure response whose body is not JSON makes the refresh
  reject with the \<open>SyntaxError\<close> of \<open>response.json()\<close>.
\<close>

theorem getFeatures_failure_when_inited_assigns_body:
  "inited (fst polling_world) \<and>
   \<not> resp_ok get_error_response \<and>
   declaredFeatures (fst polling_world) = JObj [(''featureA'', featureA_entry)] \<and>
   fst (getFeatures get_error_response polling_world) = Inr () \<and>
   declaredFeatures (fst (snd (getFeatures get_error_response polling_world)))
     = JStr ''Get error'' \<and>
   \<not> resp_ok html_error_response \<and>
   fst (getFeatures html_error_response polling_world) = Inl SyntaxError"
  by (simp add: ops_defs fixture_defs)

text \<open>
  C3, as stated: read requests go to \<open>{apiUrl}/v1/sdk/feature/?publicKey={publicKey}\<close>
  and creation requests to \<open>{apiUrl}/v1/sdk/feature/\<close>. With the options of the test
  suite (\<open>apiUrl\<close> the default, origin \<open>https://test.origin\<close>) the read request goes to
  the page's origin and the creation request to a relative URL; neither starts with
  \<open>apiUrl\<close>.
\<close>

theorem request_urls_counterexample:
  "apiUrl (options (new_manager test_opts)) = Some ''https://api.platform.kybernetix.ru'' \<and>
   map req_url (fetches (snd (snd (getFeatures featureA_response (new_manager test_opts, test_env)))))
     = [''https://test.origin/v1/sdk/feature/?publicKey=test-public-key''] \<and>
   map req_url (fetches (snd (snd (getFeatures featureA_response (new_manager test_opts, test_env)))))
     \<noteq> [''https://api.platform.kybernetix.ru/v1/sdk/feature/?publicKey=test-public-key''] \<and>
   map req_url (fetches (snd (snd (createFeature ''testFeature'' \<lparr>times = []\<rparr> featureA_response
                                     (new_manager test_opts, test_env)))))
     = [''/v1/sdk/feature/''] \<and>
   map req_url (fetches (snd (snd (createFeature ''testFeature'' \<lparr>times = []\<rparr> featureA_response
                                     (new_manager test_opts, test_env)))))
     \<noteq> [''https://api.platform.kybernetix.ru/v1/sdk/feature/'']"
  by (simp add: ops_defs fixture_defs urlencode_def urlencode_char_def)

text \<open>
  C3, amended. Every read request is a GET to
  \<open>{window.location.origin}/v1/sdk/feature/?publicKey={publicKey}\<close>, the key
  form-urlencoded, and every creation request is a POST to the relative URL
  \<open>/v1/sdk/feature/\<close>. The constructor defaults \<open>apiUrl\<close> to
  \<open>https://api.platform.kybernetix.ru\<close> when it is not supplied, and no request depends
  on \<open>apiUrl\<close>: changing it changes nothing in what either operation does to the
  environment.
\<close>

theorem request_urls_from_origin:
  "(truthy_str (publicKey (options m)) \<longrightarrow>
      fetches (snd (snd (getFeatures r (m, e)))) =
        fetches e @ [read_request (origin e) (the (publicKey (options m)))]) \<and>
   (truthy_str (privateKey (options m)) \<longrightarrow>
      fetches (snd (snd (createFeature featureName opts r (m, e)))) =
        fetches e @ [create_request (the (privateKey (options m))) featureName opts]) \<and>
   req_url (read_request org pk) = org @ ''/v1/sdk/feature/?publicKey='' @ urlencode pk \<and>
   req_method (read_request org pk) = ''GET'' \<and>
   req_url (create_request key featureName opts) = ''/v1/sdk/feature/'' \<and>
   req_method (create_request key featureName opts) = ''POST'' \<and>
   apiUrl (options (new_manager given)) =
     Some (case apiUrl given of
             None \<Rightarrow> ''https://api.platform.kybernetix.ru'' | Some u \<Rightarrow> u) \<and>
   snd (snd (getFeatures r (m\<lparr>options := (options m)\<lparr>apiUrl := u\<rparr>\<rparr>, e))) =
     snd (snd (getFeatures r (m, e))) \<and>
   snd (snd (createFeature featureName opts r (m\<lparr>options := (options m)\<lparr>apiUrl := u\<rparr>\<rparr>, e))) =
     snd (snd (createFeature featureName opts r (m, e)))"
  by (simp add: ops_defs Let_def split: option.splits)

theorem request_urls_from_origin_witness:
  "truthy_str (publicKey (options (new_manager test_opts))) \<and>
   truthy_str (privateKey (options (new_manager test_opts))) \<and>
   fetches (snd (snd (getFeatures featureA_response (new_manager test_opts, test_env)))) =
     [read_request ''https://test.origin'' ''test-public-key''] \<and>
   fetches (snd (snd (createFeature ''testFeature'' \<lparr>times = []\<rparr> featureA_response
                        (new_manager test_opts, test_env)))) =
     [create_request ''test-private-key'' ''testFeature'' \<lparr>times = []\<rparr>] \<and>
   req_url (read_request ''https://test.origin'' ''test-public-key'') =
     ''https://test.origin/v1/sdk/feature/?publicKey=test-public-key'' \<and>
   apiUrl (options (new_manager example_opts)) = Some ''https://api.platform.kybernetix.ru''"
  using request_urls_from_origin
    [where m = "new_manager test_opts" and e = test_env and r = featureA_response
       and featureName = "''testFeature''" and opts = "\<lparr>times = []\<rparr>"
       and org = "''https://test.origin''" and pk = "''test-public-key''"
       and given = example_opts]
  by (simp add: new_manager_def truthy_str_def fixture_defs urlencode_def urlencode_char_def)


text \<open>
  C4. After every successful refresh, in any phase, the cache is exactly what the service
  returned: for a manager with a public key, in any state, a success response with body
  \<open>v\<close> makes \<open>getFeatures\<close> resolve with the cache equal to \<open>v\<close>, so that every lookup
  afterwards is a lookup in \<open>v\<close> (no key of the old cache survives, none of \<open>v\<close> is
  missing); the same holds for the refresh that \<open>init\<close> performs.
\<close>

theorem getFeatures_success_replaces_cache:
  "resp_ok r \<Longrightarrow> resp_json r = Some v \<Longrightarrow> truthy_str (publicKey (options m)) \<Longrightarrow>
   fst (getFeatures r (m, e)) = Inr () \<and>
   declaredFeatures (fst (snd (getFeatures r (m, e)))) = v \<and>
   getLocalFeature featureName (fst (snd (getFeatures r (m, e)))) = get_prop v featureName \<and>
   fst (init r (m, e)) = Inr () \<and>
   declaredFeatures (fst (snd (init r (m, e)))) = v"
  by (simp add: getFeatures_def init_def setInterval_def getLocalFeature_def Let_def)

theorem getFeatures_success_replaces_cache_witness:
  "resp_ok featureA_response \<and>
   resp_json featureA_response = Some (JObj [(''featureA'', featureA_entry)]) \<and>
   truthy_str (publicKey (options (fst polling_world))) \<and>
   declaredFeatures (fst (snd (getFeatures featureA_response
       ((fst polling_world)\<lparr>declaredFeatures := JObj [(''stale'', featureA_entry)]\<rparr>, snd polling_world))))
     = JObj [(''featureA'', featureA_entry)] \<and>
   getLocalFeature ''stale'' (fst (snd (getFeatures featureA_response
       ((fst polling_world)\<lparr>declaredFeatures := JObj [(''stale'', featureA_entry)]\<rparr>, snd polling_world))))
     = Inr JUndefined"
  using getFeatures_success_replaces_cache
    [where r = featureA_response and v = "JObj [(''featureA'', featureA_entry)]"
       and m = "(fst polling_world)\<lparr>declaredFeatures := JObj [(''stale'', featureA_entry)]\<rparr>"
       and e = "snd polling_world" and featureName = "''stale''"]
  by (simp add: ops_defs fixture_defs)

text \<open>
  C5. If the first refresh (\<open>inited\<close> false) receives a failure response, \<open>init()\<close>
  rejects with an error whose message carries the status and the body text, no timer is
  started (the active timers and the next handle are as before, and the manager holds the
  handle it held), and \<open>inited\<close> stays false. The manager has a public key, or no request
  would have been made.
\<close>

theorem init_first_refresh_failure:
  "\<not> inited m \<Longrightarrow> \<not> resp_ok r \<Longrightarrow> truthy_str (publicKey (options m)) \<Longrightarrow>
   fst (init r (m, e)) =
     Inl (Error (''Failed to get features: '' @ string_of_nat (resp_status r)
                 @ '' - '' @ resp_text r)) \<and>
   timers (snd (snd (init r (m, e)))) = timers e \<and>
   next_handle (snd (snd (init r (m, e)))) = next_handle e \<and>
   interval (fst (snd (init r (m, e)))) = interval m \<and>
   inited (fst (snd (init r (m, e)))) = False \<and>
   fst (snd (init r (m, e))) = m"
  by (simp add: init_def getFeatures_def fetch_def Let_def)

theorem init_first_refresh_failure_witness:
  "\<not> inited (new_manager test_opts) \<and>
   \<not> resp_ok get_error_response \<and>
   truthy_str (publicKey (options (new_manager test_opts))) \<and>
   fst (init get_error_response (new_manager test_opts, test_env)) =
     Inl (Error ''Failed to get features: 500 - Get error'') \<and>
   timers (snd (snd (init get_error_response (new_manager test_opts, test_env)))) = [] \<and>
   interval (fst (snd (init get_error_response (new_manager test_opts, test_env)))) = None \<and>
   inited (fst (snd (init get_error_response (new_manager test_opts, test_env)))) = False"
  using init_first_refresh_failure
    [where m = "new_manager test_opts" and r = get_error_response and e = test_env]
  by (simp add: new_manager_def truthy_str_def fixture_defs string_of_nat.simps)

text \<open>
  C6. \<open>declareFeature(name, options)\<close> is to do nothing when \<open>name\<close> is in the cache
  and to trigger exactly one creation, with that name and those options, when it is not.
  On the code, the lookup \<open>this.declaredFeatures[featureName]\<close> also finds what the
  cache object inherits: on a new manager, whose cache is empty, the lookup of
  \<open>constructor\<close> yields the built-in \<open>Object\<close>, which is truthy, and
  \<open>declareFeature("constructor", {times: []})\<close> invokes no creation and issues no
  request.
\<close>

theorem declareFeature_constructor_creates_nothing:
  "declaredFeatures (new_manager test_opts) = JObj [] \<and>
   getLocalFeature ''constructor'' (new_manager test_opts) =
     Inr (JBuiltin ''Object.prototype.constructor'') \<and>
   declareFeature ''constructor'' \<lparr>times = []\<rparr> (new_manager test_opts, test_env) =
     (Inr (), (new_manager test_opts, test_env)) \<and>
   createFeature_calls
     (snd (snd (declareFeature ''constructor'' \<lparr>times = []\<rparr> (new_manager test_opts, test_env))))
     = [] \<and>
   fetches
     (snd (snd (declareFeature ''constructor'' \<lparr>times = []\<rparr> (new_manager test_opts, test_env))))
     = []"
  by (simp add: ops_defs fixture_defs)

text \<open>
  C7. For a name that is not in the cache, \<open>isEnabled(name)\<close> is to return \<open>false\<close>
  and to trigger exactly one creation with \<open>{times: []}\<close>. On the code, on a new manager,
  the lookup of \<open>toString\<close> yields the function that the cache object inherits, which is
  truthy and has no \<open>meta\<close>: \<open>isEnabled("toString")\<close> throws a \<open>TypeError\<close> when
  it reads \<open>feature.meta.enabled\<close>, and invokes no creation.
\<close>

theorem isEnabled_toString_throws:
  "declaredFeatures (new_manager test_opts) = JObj [] \<and>
   getLocalFeature ''toString'' (new_manager test_opts) =
     Inr (JBuiltin ''Object.prototype.toString'') \<and>
   isEnabled ''toString'' (new_manager test_opts, test_env) =
     (Inl TypeError, (new_manager test_opts, test_env)) \<and>
   createFeature_calls (snd (snd (isEnabled ''toString'' (new_manager test_opts, test_env))))
     = []"
  by (simp add: ops_defs fixture_defs)

text \<open>
  C8. With no private key configured, the create operation issues no HTTP request and
  resolves to \<open>null\<close>, for every feature name, options and state; the manager stays as
  it is.
\<close>

theorem createFeature_without_privateKey:
  "privateKey (options m) = None \<Longrightarrow>
   fst (createFeature featureName opts r (m, e)) = Inr JNull \<and>
   fetches (snd (snd (createFeature featureName opts r (m, e)))) = fetches e \<and>
   fst (snd (createFeature featureName opts r (m, e))) = m"
  by (simp add: createFeature_def createFeature_result_def createFeature_issue_fetches
      truthy_str_def)

theorem createFeature_without_privateKey_witness:
  "privateKey (options (new_manager (test_opts\<lparr>privateKey := None\<rparr>))) = None \<and>
   createFeature ''noPrivateKey'' \<lparr>times = []\<rparr> featureA_response
       (new_manager (test_opts\<lparr>privateKey := None\<rparr>), test_env) =
     (Inr JNull,
      (new_manager (test_opts\<lparr>privateKey := None\<rparr>),
       test_env\<lparr>createFeature_calls := [(''noPrivateKey'', \<lparr>times = []\<rparr>)]\<rparr>)) \<and>
   fetches (snd (snd (createFeature ''noPrivateKey'' \<lparr>times = []\<rparr> featureA_response
       (new_manager (test_opts\<lparr>privateKey := None\<rparr>), test_env)))) = []"
  using createFeature_without_privateKey
    [where m = "new_manager (test_opts\<lparr>privateKey := None\<rparr>)" and e = test_env
       and featureName = "''noPrivateKey''" and opts = "\<lparr>times = []\<rparr>"
       and r = featureA_response]
  by (simp add: ops_defs fixture_defs)

text \<open>
  C9, as stated: after \<open>destroy()\<close> no further periodic read requests occur. When
  \<open>init()\<close> has completed twice, the manager holds the handle of the second timer only;
  \<open>destroy()\<close> clears that one, the first timer stays active, and its next tick issues a
  read request.
\<close>

theorem destroy_two_inits_counterexample:
  "timers (snd twice_inited) = [(0, 10000), (1, 10000)] \<and>
   interval (fst twice_inited) = Some 1 \<and>
   timers (snd (destroy twice_inited)) = [(0, 10000)] \<and>
   fetches (snd (tick 0 featureA_response (destroy twice_inited))) =
     fetches (snd (destroy twice_inited)) @
       [read_request ''https://test.origin'' ''test-public-key''] \<and>
   fetches (snd (tick 0 featureA_response (destroy twice_inited))) \<noteq>
     fetches (snd (destroy twice_inited))"
  by (simp add: ops_defs fixture_defs)

text \<open>
  A manager constructed in an environment without timers holds, after one \<open>init()\<close>,
  every timer that is active.
\<close>

lemma init_once_holds_its_timer:
  "timers e = [] \<Longrightarrow>
   fst ` set (timers (snd (snd (init r (m, e))))) \<subseteq>
     set_option (interval (fst (snd (init r (m, e)))))"
  by (simp add: init_def getFeatures_def setInterval_def fetch_def Let_def
      split: option.splits)

text \<open>
  The same happens with a single \<open>init()\<close> when \<open>destroy()\<close> is called while that
  \<open>init()\<close> still awaits its refresh: \<open>destroy()\<close> finds no handle to clear, and when
  the response arrives \<open>init()\<close> goes on, starts the timer and sets \<open>inited\<close>; the
  next tick issues a read request.
\<close>

lemma destroy_during_init_keeps_polling:
  "fst (call_destroy (call_init ((new_manager test_opts, test_env), []))) =
     (new_manager test_opts,
      test_env\<lparr>fetches := [read_request ''https://test.origin'' ''test-public-key'']\<rparr>) \<and>
   timers (snd (fst (run [Respond 0 featureA_response]
       (call_destroy (call_init ((new_manager test_opts, test_env), []))))))
     = [(0, 10000)] \<and>
   inited (fst (fst (run [Respond 0 featureA_response]
       (call_destroy (call_init ((new_manager test_opts, test_env), []))))))
     \<and>
   fetches (snd (fst (run [Respond 0 featureA_response, Tick 0]
       (call_destroy (call_init ((new_manager test_opts, test_env), []))))))
     = [read_request ''https://test.origin'' ''test-public-key'',
        read_request ''https://test.origin'' ''test-public-key'']"
  by (simp add: loop_defs ops_defs fixture_defs)

text \<open>
  C9, amended. \<open>destroy()\<close> sets \<open>inited\<close> to false, clears the cache to the empty
  object and cancels the timer whose handle the manager holds, if it holds one (all other
  timers are left as they are, no request is issued, and nothing can fail);
  \<open>destroy()\<close> twice is \<open>destroy()\<close> once. When, at the call of \<open>destroy()\<close>, every
  active timer is the one the manager holds and no \<open>init()\<close> still awaits its refresh,
  then whatever ticks and responses follow, no timer is active and no request is issued
  any more; when moreover no refresh at all is in flight, nothing changes any more: the
  cache stays empty and \<open>inited\<close> stays false.
\<close>

theorem destroy_effects:
  "inited (fst (destroy w)) = False \<and>
   declaredFeatures (fst (destroy w)) = JObj [] \<and>
   timers (snd (destroy w)) =
     (case interval (fst w) of
        None \<Rightarrow> timers (snd w)
      | Some h \<Rightarrow> filter (\<lambda>t. fst t \<noteq> h) (timers (snd w))) \<and>
   fetches (snd (destroy w)) = fetches (snd w) \<and>
   destroy (destroy w) = destroy w \<and>
   call_destroy (call_destroy (w, ps)) = call_destroy (w, ps) \<and>
   (fst ` set (timers (snd w)) \<subseteq> set_option (interval (fst w)) \<and> PendingInit \<notin> set ps \<longrightarrow>
      (\<forall>evs. timers (snd (fst (run evs (call_destroy (w, ps))))) = [] \<and>
             fetches (snd (fst (run evs (call_destroy (w, ps))))) = fetches (snd w))) \<and>
   (fst ` set (timers (snd w)) \<subseteq> set_option (interval (fst w)) \<longrightarrow>
      (\<forall>evs. run evs (call_destroy (w, [])) = (destroy w, [])))"
proof -
  have fields: "inited (fst (destroy w)) = False \<and>
      declaredFeatures (fst (destroy w)) = JObj [] \<and>
      timers (snd (destroy w)) =
        (case interval (fst w) of
           None \<Rightarrow> timers (snd w)
         | Some h \<Rightarrow> filter (\<lambda>t. fst t \<noteq> h) (timers (snd w))) \<and>
      fetches (snd (destroy w)) = fetches (snd w)"
    by (simp add: destroy_def clearInterval_def Let_def split: option.splits)
  have twice: "call_destroy (call_destroy (w, ps)) = call_destroy (w, ps)"
    by (simp add: call_destroy_def destroy_idem)
  have quiet: "timers (snd (fst (run evs (call_destroy (w, ps))))) = [] \<and>
      fetches (snd (fst (run evs (call_destroy (w, ps))))) = fetches (snd w)"
    if held: "fst ` set (timers (snd w)) \<subseteq> set_option (interval (fst w))"
      and no_init: "PendingInit \<notin> set ps" for evs
  proof -
    from held have "timers (snd (destroy w)) = []"
      by (rule destroy_no_timers)
    then have "timers (snd (fst (call_destroy (w, ps)))) = []"
      by (simp add: call_destroy_def)
    moreover from no_init have "PendingInit \<notin> set (snd (call_destroy (w, ps)))"
      by (simp add: call_destroy_def)
    ultimately have "timers (snd (fst (run evs (call_destroy (w, ps))))) = [] \<and>
        fetches (snd (fst (run evs (call_destroy (w, ps))))) =
          fetches (snd (fst (call_destroy (w, ps))))"
      by (rule quiet_run)
    with fields show ?thesis
      by (simp add: call_destroy_def)
  qed
  have idle: "run evs (call_destroy (w, [])) = (destroy w, [])"
    if held: "fst ` set (timers (snd w)) \<subseteq> set_option (interval (fst w))" for evs
  proof -
    from held have "timers (snd (destroy w)) = []"
      by (rule destroy_no_timers)
    then have "run evs (destroy w, []) = (destroy w, [])"
      by (intro idle_run) simp_all
    then show ?thesis
      by (simp add: call_destroy_def)
  qed
  from fields destroy_idem [of w] twice quiet idle show ?thesis
    by blast
qed

theorem destroy_effects_witness:
  "fst ` set (timers (snd (snd (init featureA_response (new_manager test_opts, test_env)))))
     \<subseteq> set_option (interval (fst (snd (init featureA_response (new_manager test_opts, test_env))))) \<and>
   PendingInit \<notin> set [PendingRefresh] \<and>
   timers (snd (snd (init featureA_response (new_manager test_opts, test_env)))) = [(0, 10000)] \<and>
   timers (snd (destroy (snd (init featureA_response (new_manager test_opts, test_env))))) = [] \<and>
   declaredFeatures (fst (destroy (snd (init featureA_response (new_manager test_opts, test_env)))))
     = JObj [] \<and>
   fetches (snd (fst (run [Tick 0, Respond 0 featureA_response, Tick 0]
       (call_destroy (snd (init featureA_response (new_manager test_opts, test_env)),
                     [PendingRefresh])))))
     = [read_request ''https://test.origin'' ''test-public-key''] \<and>
   run [Tick 0, Respond 0 featureA_response, Tick 1]
       (call_destroy (snd (init featureA_response (new_manager test_opts, test_env)), []))
     = (destroy (snd (init featureA_response (new_manager test_opts, test_env))), []) \<and>
   destroy (new_manager test_opts, test_env) = (new_manager test_opts, test_env)"
  using destroy_effects
    [where w = "snd (init featureA_response (new_manager test_opts, test_env))"
       and ps = "[PendingRefresh]"]
  by (simp add: loop_defs ops_defs fixture_defs)

text \<open>
  C10. \<open>declareFeature\<close>, \<open>isEnabled\<close> and the create operation are never to write
  the cache, which only a successful refresh and \<open>destroy\<close> are to change; and while a
  name is not in the cache, every call of \<open>isEnabled(name)\<close> is to trigger a creation.
  The three operations do leave the cache as it is (\<open>cache_frame\<close>). But on the code
  the tick of the timer, on a manager that is initialised and has \<open>featureA\<close> cached,
  with the service answering 503 and the body \<open>{}\<close>, changes the cache to the empty
  object: a refresh that did not succeed. And on the same manager two calls of
  \<open>isEnabled("valueOf")\<close>, a name that is not in the cache, throw and invoke no
  creation.
\<close>

theorem cache_changed_by_failed_refresh:
  "inited (fst polling_world) \<and>
   \<not> resp_ok maintenance_response \<and>
   declaredFeatures (fst polling_world) = JObj [(''featureA'', featureA_entry)] \<and>
   declaredFeatures (fst (tick 0 maintenance_response polling_world)) = JObj [] \<and>
   declaredFeatures (fst (tick 0 maintenance_response polling_world)) \<noteq>
     declaredFeatures (fst polling_world) \<and>
   map_of [(''featureA'', featureA_entry)] ''valueOf'' = None \<and>
   fst (isEnabled ''valueOf'' polling_world) = Inl TypeError \<and>
   fst (isEnabled ''valueOf'' (snd (isEnabled ''valueOf'' polling_world))) = Inl TypeError \<and>
   createFeature_calls
     (snd (snd (isEnabled ''valueOf'' (snd (isEnabled ''valueOf'' polling_world))))) = []"
  by (simp add: ops_defs fixture_defs)

end
